theory Spec2Isabelle
  imports Complex_Main
begin

section \<open>Python values, exceptions and the observable history\<close>

text \<open>
  The scripts pass untyped Python values around: a queued message is a list
  \<^verbatim>\<open>[kind, payload]\<close> in \<^verbatim>\<open>azure-iot-example_thread.py\<close> and a dict
  \<^verbatim>\<open>{"type": kind, "msg": payload}\<close> in \<^verbatim>\<open>my_azure.py\<close>; a command payload is
  whatever JSON the cloud sent.  \<open>PObj\<close> stands for an opaque object (an SDK
  \<^verbatim>\<open>Message\<close>), which can neither be subscripted nor asked for \<^verbatim>\<open>.get\<close>.
  Dict keys are strings, as in JSON objects.  A float is \<^verbatim>\<open>nan\<close>, an infinity
  or a finite double, the latter given by its exact rational value: the code
  only compares floats with 0 and hands them to \<^verbatim>\<open>time.sleep\<close>.
\<close>

datatype pyfloat = FFinite rat | FNaN | FPosInf | FNegInf

datatype pyval =
    PNone
  | PBool bool
  | PInt int
  | PFloat pyfloat
  | PStr string
  | PList "pyval list"
  | PDict "(string \<times> pyval) list"
  | PObj nat

datatype exn =
    IndexError | KeyError | TypeError | AttributeError
  | NameError | UnboundLocalError | TimeoutError | SdkError
  | ValueError | OverflowError | OSError

text \<open>\<^verbatim>\<open>v[i]\<close> for the literal indices 0 and 1 the scripts use.\<close>

fun getitem_int :: "pyval \<Rightarrow> nat \<Rightarrow> exn + pyval" where
  "getitem_int (PList xs) i = (if i < length xs then Inr (xs ! i) else Inl IndexError)"
| "getitem_int (PStr s) i = (if i < length s then Inr (PStr [s ! i]) else Inl IndexError)"
| "getitem_int (PDict d) i = Inl KeyError"
| "getitem_int PNone i = Inl TypeError"
| "getitem_int (PInt n) i = Inl TypeError"
| "getitem_int (PBool b) i = Inl TypeError"
| "getitem_int (PFloat x) i = Inl TypeError"
| "getitem_int (PObj n) i = Inl TypeError"

text \<open>\<^verbatim>\<open>v["key"]\<close>.\<close>

fun getitem_str :: "pyval \<Rightarrow> string \<Rightarrow> exn + pyval" where
  "getitem_str (PDict d) k = (case map_of d k of None \<Rightarrow> Inl KeyError | Some v \<Rightarrow> Inr v)"
| "getitem_str (PList xs) k = Inl TypeError"
| "getitem_str (PStr s) k = Inl TypeError"
| "getitem_str PNone k = Inl TypeError"
| "getitem_str (PInt n) k = Inl TypeError"
| "getitem_str (PBool b) k = Inl TypeError"
| "getitem_str (PFloat x) k = Inl TypeError"
| "getitem_str (PObj n) k = Inl TypeError"

text \<open>\<^verbatim>\<open>v.get("key", default)\<close>: only a dict has the method.\<close>

fun py_get :: "pyval \<Rightarrow> string \<Rightarrow> pyval \<Rightarrow> exn + pyval" where
  "py_get (PDict d) k dflt = Inr (case map_of d k of None \<Rightarrow> dflt | Some v \<Rightarrow> v)"
| "py_get (PList xs) k dflt = Inl AttributeError"
| "py_get (PStr s) k dflt = Inl AttributeError"
| "py_get PNone k dflt = Inl AttributeError"
| "py_get (PInt n) k dflt = Inl AttributeError"
| "py_get (PBool b) k dflt = Inl AttributeError"
| "py_get (PFloat x) k dflt = Inl AttributeError"
| "py_get (PObj n) k dflt = Inl AttributeError"

text \<open>
  Sleeps are recorded with the name of the configured interval they use; a
  delay taken from a command payload is \<open>Seconds x\<close>.
\<close>

datatype duration =
    CheckInterval | SendRetryInterval | ReconnectInterval | SpinTick
  | Seconds rat | PowerOffDelay

record method_request =
  req_name :: string
  req_payload :: pyval
  req_id :: string

record method_response =
  resp_request_id :: string
  resp_status :: int
  resp_payload :: "string \<times> int"

datatype task = RestartSlaveTask pyval | RestartSlaveTaskSimple pyval | StopTask

text \<open>
  Every effect the code has on the world outside its own variables is an
  event appended to the history: calls into the IoT client, sleeps, thread
  starts, relay operations and writes of the shared readiness flag.  Calls of
  the \<^verbatim>\<open>logger\<close> module are left out: they return normally and touch
  nothing the functions below read.
\<close>

datatype event =
    Connect
  | SendMessage pyval
  | PatchTwin pyval
  | SendMethodResponse method_response
  | Sleep duration
  | StartThread task
  | SetSlaveReady bool
  | RelayRequest
  | RelayOn
  | RelayOff

datatype send_outcome = Delivered | TimedOut | SendFailed

text \<open>
  The environment answers each call that leaves the process, as a function of
  the history so far: whether the network check succeeds, whether
  \<^verbatim>\<open>client.connect()\<close> returns or raises, how \<^verbatim>\<open>future.result(timeout)\<close> ends,
  whether \<^verbatim>\<open>client.send_method_response\<close> returns or raises, and whether the
  GPIO line of the relay can be requested.  \<open>sleep_returns\<close> says for which
  lengths, in seconds, the sleep call of the platform returns instead of
  failing with \<^verbatim>\<open>OSError\<close>; it matters for the one sleep whose length comes
  from a command payload.
\<close>

record env =
  net_up :: "event list \<Rightarrow> bool"
  handshake_ok :: "event list \<Rightarrow> bool"
  send_result :: "event list \<Rightarrow> send_outcome"
  response_ok :: "event list \<Rightarrow> bool"
  relay_ok :: "event list \<Rightarrow> bool"
  sleep_returns :: "rat \<Rightarrow> bool"

text \<open>
  The module globals of the scripts and the state of the IoT client.
  \<open>connected\<close> is \<^verbatim>\<open>client.connected\<close>, \<open>handlers_set\<close> says that
  \<^verbatim>\<open>client.on_method_request_received\<close> has been assigned, \<open>slave_ip_address\<close>
  holds the value whose \<^verbatim>\<open>str()\<close> the code stores in \<^verbatim>\<open>SLAVE_CONFIG\<close>.
\<close>

record world =
  send_queue :: "pyval list"
  SLAVE_READY_STATE :: bool
  ERROR_STATE :: bool
  slave_ip_address :: pyval
  connected :: bool
  handlers_set :: bool
  trace :: "event list"

text \<open>
  A call returns a value or raises, in either case leaving a world behind.  A
  call that may also never return yields an \<open>outcome option\<close>, \<open>None\<close>
  standing for no return.
\<close>

datatype 'a outcome = Ret 'a world | Raise exn world

definition emit :: "event \<Rightarrow> world \<Rightarrow> world" where
  "emit e w = w\<lparr>trace := trace w @ [e]\<rparr>"

section \<open>Readiness status (\<^verbatim>\<open>azure-iot-example_thread.py\<close>)\<close>

definition status :: "world \<Rightarrow> string" where
  "status w =
     (if ERROR_STATE w then ''Error''
      else if \<not> SLAVE_READY_STATE w then ''AwaitingSlave''
      else ''Ready'')"

section \<open>Sending one message with a timeout\<close>

definition MSGTYPE :: "string list" where
  "MSGTYPE = [''telemetry'', ''propertyUpdate'']"

definition MSGTYPE_my_azure :: "string list" where
  "MSGTYPE_my_azure = [''TELEMETRY'', ''PROPERTY'']"

text \<open>
  The body of the \<^verbatim>\<open>try\<close> block, \<^verbatim>\<open>future.result(timeout=...)\<close>.  The argument
  says whether one of the two branches before it has bound \<^verbatim>\<open>future\<close>; reading
  an unbound local raises inside the block.  After a timeout the \<^verbatim>\<open>with\<close>
  block still waits for its worker before the function returns; the worker is
  taken to end.
\<close>

definition future_result :: "env \<Rightarrow> bool \<Rightarrow> world \<Rightarrow> exn + unit" where
  "future_result E bound w =
     (if \<not> bound then Inl UnboundLocalError
      else case send_result E (trace w) of
             Delivered \<Rightarrow> Inr ()
           | TimedOut \<Rightarrow> Inl TimeoutError
           | SendFailed \<Rightarrow> Inl SdkError)"

text \<open>
  The \<^verbatim>\<open>try\<close> statement with its two handlers: \<^verbatim>\<open>except TimeoutError\<close> and
  \<^verbatim>\<open>except Exception\<close> both return \<^verbatim>\<open>False\<close>.
\<close>

definition try_future :: "env \<Rightarrow> bool \<Rightarrow> world \<Rightarrow> bool outcome" where
  "try_future E bound w =
     (case future_result E bound w of
        Inr u \<Rightarrow> Ret True w
      | Inl e \<Rightarrow> (if e = TimeoutError then Ret False w else Ret False w))"

text \<open>\<^verbatim>\<open>send_with_timeout(client, message)\<close> of \<^verbatim>\<open>azure-iot-example_thread.py\<close>.\<close>

definition send_with_timeout :: "env \<Rightarrow> pyval \<Rightarrow> world \<Rightarrow> bool outcome" where
  "send_with_timeout E message w =
     (if message = PNone then Ret True w
      else case getitem_int message 0 of
        Inl e \<Rightarrow> Raise e w
      | Inr kind \<Rightarrow>
          if kind = PStr (MSGTYPE ! 0) then
            (case getitem_int message 1 of
               Inl e \<Rightarrow> Raise e w
             | Inr p \<Rightarrow> try_future E True (emit (SendMessage p) w))
          else if kind = PStr (MSGTYPE ! 1) then
            (case getitem_int message 1 of
               Inl e \<Rightarrow> Raise e w
             | Inr p \<Rightarrow> try_future E True (emit (PatchTwin p) w))
          else try_future E False w)"

text \<open>\<^verbatim>\<open>Client.send_with_timeout(self, message)\<close> of \<^verbatim>\<open>my_azure.py\<close>.\<close>

definition client_send_with_timeout :: "env \<Rightarrow> pyval \<Rightarrow> world \<Rightarrow> bool outcome" where
  "client_send_with_timeout E message w =
     (if message = PNone then Ret True w
      else case getitem_str message ''type'' of
        Inl e \<Rightarrow> Raise e w
      | Inr kind \<Rightarrow>
          if kind = PStr (MSGTYPE_my_azure ! 0) then
            (case getitem_str message ''msg'' of
               Inl e \<Rightarrow> Raise e w
             | Inr p \<Rightarrow> try_future E True (emit (SendMessage p) w))
          else if kind = PStr (MSGTYPE_my_azure ! 1) then
            (case getitem_str message ''msg'' of
               Inl e \<Rightarrow> Raise e w
             | Inr p \<Rightarrow> try_future E True (emit (PatchTwin p) w))
          else try_future E False w)"

section \<open>Connecting the client\<close>

text \<open>
  \<^verbatim>\<open>connect_to_iot_hub(client)\<close> of \<^verbatim>\<open>azure-iot-example_thread.py\<close>.  When
  \<^verbatim>\<open>client.connect()\<close> raises, the handler logs and then evaluates
  \<^verbatim>\<open>time.sleep(retry_interval)\<close>; the module defines no \<^verbatim>\<open>retry_interval\<close>, so
  a \<^verbatim>\<open>NameError\<close> leaves the function.  On every other path the two handler
  attributes are assigned and \<^verbatim>\<open>True\<close> is returned.
\<close>

definition connect_to_iot_hub :: "env \<Rightarrow> world \<Rightarrow> bool outcome" where
  "connect_to_iot_hub E w =
     (if \<not> connected w then
        (let w1 = emit Connect w in
         if handshake_ok E (trace w1)
         then Ret True (w1\<lparr>connected := True, handlers_set := True\<rparr>)
         else Raise NameError w1)
      else Ret True (w\<lparr>handlers_set := True\<rparr>))"

text \<open>
  \<^verbatim>\<open>Client.connect_to_iot_hub(self)\<close> of \<^verbatim>\<open>my_azure.py\<close>: the handler sleeps
  \<^verbatim>\<open>RECONNECT_INTERVAL\<close> and control falls through to \<^verbatim>\<open>return True\<close>.
\<close>

definition client_connect_to_iot_hub :: "env \<Rightarrow> world \<Rightarrow> bool outcome" where
  "client_connect_to_iot_hub E w =
     (if \<not> connected w then
        (let w1 = emit Connect w in
         if handshake_ok E (trace w1)
         then Ret True (w1\<lparr>connected := True, handlers_set := True\<rparr>)
         else Ret True ((emit (Sleep ReconnectInterval) w1)\<lparr>handlers_set := True\<rparr>))
      else Ret True (w\<lparr>handlers_set := True\<rparr>))"

section \<open>The sender (\<^verbatim>\<open>azure-iot-example_thread.py\<close>)\<close>

text \<open>
  The polling loop \<^verbatim>\<open>while not is_network_connected(): sleep(check_interval)\<close>.
  \<^verbatim>\<open>is_network_connected\<close> catches every exception and returns a boolean.  The
  loop need not end; \<open>None\<close> is the run that polls forever.
\<close>

partial_function (option) wait_for_network :: "env \<Rightarrow> world \<Rightarrow> world option" where
  "wait_for_network E w =
     (if net_up E (trace w) then Some w
      else wait_for_network E (emit (Sleep CheckInterval) w))"

text \<open>\<^verbatim>\<open>send_queue.put(msg)\<close>: the queue is a FIFO, new items go to the tail.\<close>

definition put :: "pyval \<Rightarrow> world \<Rightarrow> world" where
  "put msg w = w\<lparr>send_queue := send_queue w @ [msg]\<rparr>"

text \<open>
  One pass through the body of \<^verbatim>\<open>while running_event.is_set():\<close> in
  \<^verbatim>\<open>sender_task\<close>.  \<^verbatim>\<open>send_queue.get()\<close> takes the head of the queue; on an
  empty queue it blocks, which is the pass that changes nothing.  The call of
  \<^verbatim>\<open>connect_to_iot_hub\<close> is outside any \<^verbatim>\<open>try\<close>, so what it raises ends the
  task.  The value \<^verbatim>\<open>send_with_timeout\<close> returns is not looked at; only an
  exception leaving it reaches the handler that puts the message back.
\<close>

definition sender_iteration :: "env \<Rightarrow> world \<Rightarrow> unit outcome option" where
  "sender_iteration E w =
     (case send_queue w of
        [] \<Rightarrow> Some (Ret () w)
      | msg # rest \<Rightarrow>
          (case wait_for_network E (w\<lparr>send_queue := rest\<rparr>) of
             None \<Rightarrow> None
           | Some w1 \<Rightarrow>
               (case connect_to_iot_hub E w1 of
                  Raise e w2 \<Rightarrow> Some (Raise e w2)
                | Ret ok w2 \<Rightarrow>
                    if \<not> ok then
                      Some (Ret () (put msg (emit (Sleep CheckInterval) w2)))
                    else
                      (case send_with_timeout E msg w2 of
                         Raise e w3 \<Rightarrow>
                           Some (Ret () (emit (Sleep SpinTick)
                                  (emit (Sleep SendRetryInterval) (put msg w3))))
                       | Ret sent w3 \<Rightarrow>
                           Some (Ret () (emit (Sleep SpinTick) w3))))))"

text \<open>
  The sender runs beside the producers.  A schedule lists, in the order they
  happen, the \<^verbatim>\<open>send_queue.put\<close> calls of the producers and the passes of the
  sender loop.  A pass that raises ends the run, a pass that never returns
  makes the run \<open>None\<close>.
\<close>

datatype action = Put pyval | SenderPass

fun puts :: "action list \<Rightarrow> pyval list" where
  "puts [] = []"
| "puts (Put m # acts) = m # puts acts"
| "puts (SenderPass # acts) = puts acts"

fun run_schedule :: "env \<Rightarrow> action list \<Rightarrow> world \<Rightarrow> unit outcome option" where
  "run_schedule E [] w = Some (Ret () w)"
| "run_schedule E (Put m # acts) w = run_schedule E acts (put m w)"
| "run_schedule E (SenderPass # acts) w =
     (case sender_iteration E w of
        None \<Rightarrow> None
      | Some (Raise e w') \<Rightarrow> Some (Raise e w')
      | Some (Ret u w') \<Rightarrow> run_schedule E acts w')"

text \<open>The messages the producers build: \<^verbatim>\<open>[MSGTYPE[0], payload]\<close> or \<^verbatim>\<open>[MSGTYPE[1], payload]\<close>.\<close>

definition telemetry_msg :: "pyval \<Rightarrow> pyval" where
  "telemetry_msg p = PList [PStr (MSGTYPE ! 0), p]"

definition property_msg :: "pyval \<Rightarrow> pyval" where
  "property_msg p = PList [PStr (MSGTYPE ! 1), p]"

fun produced :: "pyval \<Rightarrow> bool" where
  "produced (PList [PStr k, p]) = (k = MSGTYPE ! 0 \<or> k = MSGTYPE ! 1)"
| "produced v = False"

text \<open>
  The messages handed to the client so far, read off the history in order:
  \<^verbatim>\<open>client.send_message(p)\<close> carries a telemetry message,
  \<^verbatim>\<open>client.patch_twin_reported_properties(p)\<close> a property update.
\<close>

fun handed_over :: "event list \<Rightarrow> pyval list" where
  "handed_over [] = []"
| "handed_over (SendMessage p # h) = telemetry_msg p # handed_over h"
| "handed_over (PatchTwin p # h) = property_msg p # handed_over h"
| "handed_over (e # h) = handed_over h"

section \<open>The command dispatcher\<close>

text \<open>
  \<^verbatim>\<open>restart_cmd(cmd_payload)\<close>: two \<^verbatim>\<open>.get\<close> calls on the payload, then a thread
  is started on \<^verbatim>\<open>restart_slave_task\<close> with the delay as its argument and the
  handler returns at once.  Starting the thread is taken to succeed.  The
  two scripts have the same handler; their tasks differ.
\<close>

definition restart_cmd :: "pyval \<Rightarrow> world \<Rightarrow> (string \<times> int) outcome" where
  "restart_cmd cmd_payload w =
     (case py_get cmd_payload ''delay'' (PInt 0) of
        Inl e \<Rightarrow> Raise e w
      | Inr delay \<Rightarrow>
          (case py_get cmd_payload ''reason'' (PStr ''unspecified'') of
             Inl e \<Rightarrow> Raise e w
           | Inr reason \<Rightarrow>
               Ret (''restarted'', 200) (emit (StartThread (RestartSlaveTask delay)) w)))"

definition restart_cmd_simple :: "pyval \<Rightarrow> world \<Rightarrow> (string \<times> int) outcome" where
  "restart_cmd_simple cmd_payload w =
     (case py_get cmd_payload ''delay'' (PInt 0) of
        Inl e \<Rightarrow> Raise e w
      | Inr delay \<Rightarrow>
          (case py_get cmd_payload ''reason'' (PStr ''unspecified'') of
             Inl e \<Rightarrow> Raise e w
           | Inr reason \<Rightarrow>
               Ret (''restarted'', 200) (emit (StartThread (RestartSlaveTaskSimple delay)) w)))"

definition stop_cmd :: "world \<Rightarrow> (string \<times> int) outcome" where
  "stop_cmd w = Ret (''Recived'', 999) (emit (StartThread StopTask) w)"

definition set_slave_ip_cmd :: "pyval \<Rightarrow> world \<Rightarrow> (string \<times> int) outcome" where
  "set_slave_ip_cmd cmd_payload w =
     (case py_get cmd_payload ''IP'' (PInt 0) of
        Inl e \<Rightarrow> Raise e w
      | Inr ip \<Rightarrow> Ret (''updated'', 200) (w\<lparr>slave_ip_address := ip\<rparr>))"

text \<open>The routing inside the \<^verbatim>\<open>try\<close> block of \<^verbatim>\<open>azure-iot-example_thread.py\<close>.\<close>

definition route_command :: "method_request \<Rightarrow> world \<Rightarrow> (string \<times> int) outcome" where
  "route_command r w =
     (if req_name r = ''restart'' then restart_cmd (req_payload r) w
      else Ret (''Unknown command'', 404) w)"

text \<open>The routing inside the \<^verbatim>\<open>try\<close> block of \<^verbatim>\<open>azure-iot-thread-simple.py\<close>.\<close>

definition route_command_simple :: "method_request \<Rightarrow> world \<Rightarrow> (string \<times> int) outcome" where
  "route_command_simple r w =
     (if req_name r = ''RestartSlave'' then restart_cmd_simple (req_payload r) w
      else if req_name r = ''SetSlaveIP'' then set_slave_ip_cmd (req_payload r) w
      else if req_name r = ''Stop'' then stop_cmd w
      else Ret (''Unknown command'', 404) w)"

text \<open>
  \<^verbatim>\<open>MethodResponse.create_from_method_request(request, status, payload)\<close> of the
  SDK builds the response with the request id of the request.  The payload
  \<^verbatim>\<open>{"status": status, "code": code}\<close> is the pair.
\<close>

definition create_from_method_request ::
    "method_request \<Rightarrow> int \<Rightarrow> string \<times> int \<Rightarrow> method_response" where
  "create_from_method_request r code body =
     \<lparr>resp_request_id = req_id r, resp_status = code, resp_payload = body\<rparr>"

text \<open>
  \<^verbatim>\<open>client.send_method_response(response)\<close>; the event records the call, which
  may itself raise.
\<close>

definition send_method_response :: "env \<Rightarrow> method_response \<Rightarrow> world \<Rightarrow> unit outcome" where
  "send_method_response E resp w =
     (let w1 = emit (SendMethodResponse resp) w in
      if response_ok E (trace w1) then Ret () w1 else Raise SdkError w1)"

text \<open>
  What follows the routing in one pass of \<^verbatim>\<open>command_processor_task\<close>:
  \<^verbatim>\<open>except Exception\<close> replaces whatever the routing raised by
  \<^verbatim>\<open>("error", 500)\<close>, then the response is built and sent, outside the
  \<^verbatim>\<open>try\<close>.
\<close>

definition respond :: "env \<Rightarrow> method_request \<Rightarrow> (string \<times> int) outcome \<Rightarrow> unit outcome" where
  "respond E r routed =
     (case routed of
        Ret sc w1 \<Rightarrow>
          send_method_response E (create_from_method_request r (snd sc) (fst sc, snd sc)) w1
      | Raise e w1 \<Rightarrow>
          send_method_response E (create_from_method_request r 500 (''error'', 500)) w1)"

definition command_iteration :: "env \<Rightarrow> method_request \<Rightarrow> world \<Rightarrow> unit outcome" where
  "command_iteration E r w = respond E r (route_command r w)"

definition command_iteration_simple :: "env \<Rightarrow> method_request \<Rightarrow> world \<Rightarrow> unit outcome" where
  "command_iteration_simple E r w = respond E r (route_command_simple r w)"

text \<open>
  The loop of \<^verbatim>\<open>command_processor_task\<close> over the requests it takes from the
  command queue, in the order of their arrival.  An exception that leaves a
  pass ends the task.
\<close>

fun command_processor_task :: "env \<Rightarrow> method_request list \<Rightarrow> world \<Rightarrow> unit outcome" where
  "command_processor_task E [] w = Ret () w"
| "command_processor_task E (r # rs) w =
     (case command_iteration E r w of
        Raise e w' \<Rightarrow> Raise e w'
      | Ret u w' \<Rightarrow> command_processor_task E rs w')"

fun command_processor_task_simple ::
    "env \<Rightarrow> method_request list \<Rightarrow> world \<Rightarrow> unit outcome" where
  "command_processor_task_simple E [] w = Ret () w"
| "command_processor_task_simple E (r # rs) w =
     (case command_iteration_simple E r w of
        Raise e w' \<Rightarrow> Raise e w'
      | Ret u w' \<Rightarrow> command_processor_task_simple E rs w')"

text \<open>The responses passed to \<^verbatim>\<open>send_method_response\<close> so far, in order.\<close>

fun responses :: "event list \<Rightarrow> method_response list" where
  "responses [] = []"
| "responses (SendMethodResponse resp # h) = resp # responses h"
| "responses (e # h) = responses h"

fun world_of :: "'a outcome \<Rightarrow> world" where
  "world_of (Ret x w) = w"
| "world_of (Raise e w) = w"


section \<open>Restarting the slave (\<^verbatim>\<open>azure-iot-example_thread.py\<close>, \<^verbatim>\<open>slave.py\<close>)\<close>

text \<open>
  \<^verbatim>\<open>Slave(...)\<close> builds a \<^verbatim>\<open>Relay\<close>, whose constructor requests the GPIO line and
  may fail there.
\<close>

definition Slave_init :: "env \<Rightarrow> world \<Rightarrow> unit outcome" where
  "Slave_init E w =
     (let w1 = emit RelayRequest w in
      if relay_ok E (trace w1) then Ret () w1 else Raise SdkError w1)"

text \<open>
  \<^verbatim>\<open>Slave.power_cycle(off_duration)\<close>: relay on (slave off), sleep, relay off
  (slave on).
\<close>

definition power_cycle :: "world \<Rightarrow> world" where
  "power_cycle w = emit RelayOff (emit (Sleep PowerOffDelay) (emit RelayOn w))"

text \<open>
  The comparison \<^verbatim>\<open>delay_sec < 0\<close>.  A bool is the integer 0 or 1, \<^verbatim>\<open>nan\<close>
  is below nothing; comparing \<^verbatim>\<open>None\<close>, text, a list, a dict or an object with
  0 raises \<^verbatim>\<open>TypeError\<close>.
\<close>

fun below_zero :: "pyval \<Rightarrow> exn + bool" where
  "below_zero (PInt n) = Inr (n < 0)"
| "below_zero (PBool b) = Inr False"
| "below_zero (PFloat (FFinite x)) = Inr (x < 0)"
| "below_zero (PFloat FNaN) = Inr False"
| "below_zero (PFloat FPosInf) = Inr False"
| "below_zero (PFloat FNegInf) = Inr True"
| "below_zero PNone = Inl TypeError"
| "below_zero (PStr s) = Inl TypeError"
| "below_zero (PList xs) = Inl TypeError"
| "below_zero (PDict d) = Inl TypeError"
| "below_zero (PObj n) = Inl TypeError"

text \<open>
  The first statement of \<^verbatim>\<open>restart_slave_task\<close>:
  \<^verbatim>\<open>if delay_sec is None or delay_sec < 0: delay_sec = 0\<close>.  The result is the
  value of \<^verbatim>\<open>delay_sec\<close> after it.
\<close>

definition guard_delay :: "pyval \<Rightarrow> exn + pyval" where
  "guard_delay delay_sec =
     (if delay_sec = PNone then Inr (PInt 0)
      else case below_zero delay_sec of
             Inl e \<Rightarrow> Inl e
           | Inr negative \<Rightarrow> Inr (if negative then PInt 0 else delay_sec))"

text \<open>
  What \<^verbatim>\<open>time.sleep(v)\<close> makes of its argument before it sleeps.  The length
  is converted to a signed 64-bit count of nanoseconds: an integer beyond
  9223372036 in size, a float whose product with \<open>10\<^sup>9\<close> leaves that range and
  the infinities raise \<^verbatim>\<open>OverflowError\<close>, \<^verbatim>\<open>nan\<close> and a negative length raise
  \<^verbatim>\<open>ValueError\<close>, and what is no number raises \<^verbatim>\<open>TypeError\<close>.
\<close>

fun sleep_length :: "pyval \<Rightarrow> exn + rat" where
  "sleep_length (PInt n) =
     (if 9223372036 < n \<or> n < - 9223372036 then Inl OverflowError
      else if n < 0 then Inl ValueError
      else Inr (of_int n))"
| "sleep_length (PBool b) = Inr (if b then 1 else 0)"
| "sleep_length (PFloat (FFinite x)) =
     (if 2 ^ 63 \<le> x * 10 ^ 9 \<or> x * 10 ^ 9 < - (2 ^ 63) then Inl OverflowError
      else if x < 0 then Inl ValueError
      else Inr x)"
| "sleep_length (PFloat FNaN) = Inl ValueError"
| "sleep_length (PFloat FPosInf) = Inl OverflowError"
| "sleep_length (PFloat FNegInf) = Inl OverflowError"
| "sleep_length PNone = Inl TypeError"
| "sleep_length (PStr s) = Inl TypeError"
| "sleep_length (PList xs) = Inl TypeError"
| "sleep_length (PDict d) = Inl TypeError"
| "sleep_length (PObj n) = Inl TypeError"

text \<open>
  \<^verbatim>\<open>time.sleep(v)\<close>: the conversion of the length, then the sleep call of the
  platform, which may refuse a length it cannot represent as a deadline.
\<close>

definition time_sleep :: "env \<Rightarrow> pyval \<Rightarrow> world \<Rightarrow> unit outcome" where
  "time_sleep E v w =
     (case sleep_length v of
        Inl e \<Rightarrow> Raise e w
      | Inr secs \<Rightarrow>
          if sleep_returns E secs then Ret () (emit (Sleep (Seconds secs)) w)
          else Raise OSError w)"

text \<open>
  \<^verbatim>\<open>restart_slave_task(delay_sec)\<close>, the body of the thread \<^verbatim>\<open>restart_cmd\<close>
  starts.  Each write of \<^verbatim>\<open>SLAVE_READY_STATE\<close> is also an event of the history.
  The flag is cleared before \<^verbatim>\<open>time.sleep(delay_sec)\<close>, so a sleep that raises
  leaves it cleared.
\<close>

definition restart_slave_task :: "env \<Rightarrow> pyval \<Rightarrow> world \<Rightarrow> unit outcome" where
  "restart_slave_task E delay_sec w =
     (case guard_delay delay_sec of
        Inl e \<Rightarrow> Raise e w
      | Inr d \<Rightarrow>
          (let w1 = emit (SetSlaveReady False) (w\<lparr>SLAVE_READY_STATE := False\<rparr>)
           in case time_sleep E d w1 of
                Raise e w2 \<Rightarrow> Raise e w2
              | Ret u w2 \<Rightarrow>
                  (case Slave_init E w2 of
                     Raise e w3 \<Rightarrow> Raise e w3
                   | Ret u' w3 \<Rightarrow>
                       Ret () (emit (SetSlaveReady True)
                                ((power_cycle w3)\<lparr>SLAVE_READY_STATE := True\<rparr>)))))"




section \<open>Sample inputs\<close>

definition world0 :: world where
  "world0 = \<lparr>send_queue = [], SLAVE_READY_STATE = False, ERROR_STATE = False,
             slave_ip_address = PStr [], connected = False, handlers_set = False,
             trace = []\<rparr>"

text \<open>An environment in which every outside call succeeds.\<close>

definition env_ok :: env where
  "env_ok = \<lparr>net_up = (\<lambda>h. True), handshake_ok = (\<lambda>h. True),
             send_result = (\<lambda>h. Delivered), response_ok = (\<lambda>h. True),
             relay_ok = (\<lambda>h. True), sleep_returns = (\<lambda>x. True)\<rparr>"

text \<open>An environment in which the handshake and every delivery fail.\<close>

definition env_failing :: env where
  "env_failing = \<lparr>net_up = (\<lambda>h. True), handshake_ok = (\<lambda>h. False),
             send_result = (\<lambda>h. TimedOut), response_ok = (\<lambda>h. True),
             relay_ok = (\<lambda>h. True), sleep_returns = (\<lambda>x. True)\<rparr>"

text \<open>A schedule in which two producers and the sender take turns.\<close>

definition sample_schedule :: "action list" where
  "sample_schedule =
     [Put (telemetry_msg (PInt 1)), Put (property_msg (PInt 2)), SenderPass,
      Put (telemetry_msg (PInt 3)), SenderPass, SenderPass]"

text \<open>Requests whose handler raises, succeeds, and is not found.\<close>

definition sample_requests :: "method_request list" where
  "sample_requests =
     [\<lparr>req_name = ''restart'', req_payload = PNone, req_id = ''a''\<rparr>,
      \<lparr>req_name = ''restart'', req_payload = PDict [(''delay'', PInt 2)], req_id = ''b''\<rparr>,
      \<lparr>req_name = ''doesNotExist'', req_payload = PNone, req_id = ''c''\<rparr>]"

definition sample_requests_simple :: "method_request list" where
  "sample_requests_simple =
     [\<lparr>req_name = ''SetSlaveIP'', req_payload = PStr ''10.0.0.7'', req_id = ''a''\<rparr>,
      \<lparr>req_name = ''SetSlaveIP'', req_payload = PDict [(''IP'', PStr ''10.0.0.7'')], req_id = ''b''\<rparr>,
      \<lparr>req_name = ''doesNotExist'', req_payload = PNone, req_id = ''c''\<rparr>]"

text \<open>An environment in which the second response send raises.\<close>

definition env_second_response_fails :: env where
  "env_second_response_fails =
     \<lparr>net_up = (\<lambda>h. True), handshake_ok = (\<lambda>h. True),
      send_result = (\<lambda>h. Delivered), response_ok = (\<lambda>h. length (responses h) < 2),
      relay_ok = (\<lambda>h. True), sleep_returns = (\<lambda>x. True)\<rparr>"


section \<open>Theorems\<close>

text \<open>
  C5. \<open>status\<close> depends on the pair of flags only and follows the priority
  order: an error flag gives \<open>Error\<close>; otherwise a slave that is not ready
  gives \<open>AwaitingSlave\<close> (the label the specification calls AwaitingActuator);
  otherwise \<open>Ready\<close>.
\<close>

theorem status_priority:
  "(ERROR_STATE w \<longrightarrow> status w = ''Error'') \<and>
   (\<not> ERROR_STATE w \<and> \<not> SLAVE_READY_STATE w \<longrightarrow> status w = ''AwaitingSlave'') \<and>
   (\<not> ERROR_STATE w \<and> SLAVE_READY_STATE w \<longrightarrow> status w = ''Ready'') \<and>
   (ERROR_STATE w = ERROR_STATE w' \<and> SLAVE_READY_STATE w = SLAVE_READY_STATE w'
      \<longrightarrow> status w = status w')"
  by (simp add: status_def)

theorem status_priority_witness:
  "status (world0\<lparr>ERROR_STATE := True, SLAVE_READY_STATE := True\<rparr>) = ''Error'' \<and>
   status world0 = ''AwaitingSlave'' \<and>
   status (world0\<lparr>SLAVE_READY_STATE := True\<rparr>) = ''Ready'' \<and>
   status (world0\<lparr>send_queue := [PNone]\<rparr>) = status world0"
proof -
  have a: "status (world0\<lparr>ERROR_STATE := True, SLAVE_READY_STATE := True\<rparr>) = ''Error''"
    using status_priority [of "world0\<lparr>ERROR_STATE := True, SLAVE_READY_STATE := True\<rparr>" world0]
    by simp
  have b: "status world0 = ''AwaitingSlave''"
    using status_priority [of world0 world0] by (simp add: world0_def)
  have c: "status (world0\<lparr>SLAVE_READY_STATE := True\<rparr>) = ''Ready''"
    using status_priority [of "world0\<lparr>SLAVE_READY_STATE := True\<rparr>" world0]
    by (simp add: world0_def)
  have d: "status (world0\<lparr>send_queue := [PNone]\<rparr>) = status world0"
    using status_priority [of "world0\<lparr>send_queue := [PNone]\<rparr>" world0] by simp
  from a b c d show ?thesis by blast
qed

text \<open>
  C9. For the message \<open>None\<close> both send functions return \<open>True\<close> and leave the
  world as it was: nothing is submitted to the client.
\<close>

theorem send_none_returns_true:
  "send_with_timeout E PNone w = Ret True w \<and>
   client_send_with_timeout E PNone w = Ret True w"
  by (simp add: send_with_timeout_def client_send_with_timeout_def)

text \<open>
  C10 as stated fails: a message whose kind is unknown makes neither send
  function raise.  Each returns \<open>False\<close>, with nothing handed to the client.
\<close>

theorem unknown_kind_counterexample:
  "send_with_timeout env_ok (PList [PStr ''alarm'', PObj 0]) world0 = Ret False world0 \<and>
   client_send_with_timeout env_ok (PDict [(''type'', PStr ''alarm''), (''msg'', PObj 0)]) world0
     = Ret False world0"
  by (simp add: send_with_timeout_def client_send_with_timeout_def try_future_def
      future_result_def MSGTYPE_def MSGTYPE_my_azure_def)

text \<open>
  C10, amended.  For every message whose kind can be read and is neither of
  the two known kinds, the send function returns \<open>False\<close> and leaves the
  world untouched: the read of the unbound \<^verbatim>\<open>future\<close> raises inside the
  \<^verbatim>\<open>try\<close> block and \<^verbatim>\<open>except Exception\<close> turns it into the return value.
  The function raises exactly when the message is not \<open>None\<close> and either its
  kind cannot be read, or its kind is one of the two known kinds and its
  payload cannot be read; it then raises what the subscript raised and leaves
  the world untouched.
\<close>

theorem unknown_kind_returns_false:
  "(getitem_int message 0 = Inr kind \<and> kind \<noteq> PStr ''telemetry'' \<and>
    kind \<noteq> PStr ''propertyUpdate''
      \<longrightarrow> send_with_timeout E message w = Ret False w) \<and>
   (getitem_str message ''type'' = Inr kind \<and> kind \<noteq> PStr ''TELEMETRY'' \<and>
    kind \<noteq> PStr ''PROPERTY''
      \<longrightarrow> client_send_with_timeout E message w = Ret False w) \<and>
   (send_with_timeout E message w = Raise e w') =
     (w' = w \<and> message \<noteq> PNone \<and>
      (getitem_int message 0 = Inl e \<or>
       (getitem_int message 0 = Inr (PStr ''telemetry'') \<or>
        getitem_int message 0 = Inr (PStr ''propertyUpdate'')) \<and>
       getitem_int message 1 = Inl e)) \<and>
   (client_send_with_timeout E message w = Raise e w') =
     (w' = w \<and> message \<noteq> PNone \<and>
      (getitem_str message ''type'' = Inl e \<or>
       (getitem_str message ''type'' = Inr (PStr ''TELEMETRY'') \<or>
        getitem_str message ''type'' = Inr (PStr ''PROPERTY'')) \<and>
       getitem_str message ''msg'' = Inl e))"
proof -
  have not_none: "getitem_int message 0 = Inr kind \<Longrightarrow> message \<noteq> PNone"
    "getitem_str message ''type'' = Inr kind \<Longrightarrow> message \<noteq> PNone"
    by auto
  have unbound: "try_future E False w = Ret False w"
    by (simp add: try_future_def future_result_def)
  have no_raise: "try_future E b u \<noteq> Raise e w'" for b u
    by (cases "future_result E b u") (simp_all add: try_future_def)
  have a: "getitem_int message 0 = Inr kind \<and> kind \<noteq> PStr ''telemetry'' \<and>
    kind \<noteq> PStr ''propertyUpdate''
      \<longrightarrow> send_with_timeout E message w = Ret False w"
    using not_none unbound
    by (simp add: send_with_timeout_def MSGTYPE_def)
  have b: "getitem_str message ''type'' = Inr kind \<and> kind \<noteq> PStr ''TELEMETRY'' \<and>
    kind \<noteq> PStr ''PROPERTY''
      \<longrightarrow> client_send_with_timeout E message w = Ret False w"
    using not_none unbound
    by (simp add: client_send_with_timeout_def MSGTYPE_my_azure_def)
  have c: "(send_with_timeout E message w = Raise e w') =
     (w' = w \<and> message \<noteq> PNone \<and>
      (getitem_int message 0 = Inl e \<or>
       (getitem_int message 0 = Inr (PStr ''telemetry'') \<or>
        getitem_int message 0 = Inr (PStr ''propertyUpdate'')) \<and>
       getitem_int message 1 = Inl e))"
    using no_raise
    by (auto simp: send_with_timeout_def MSGTYPE_def split: sum.splits)
  have d: "(client_send_with_timeout E message w = Raise e w') =
     (w' = w \<and> message \<noteq> PNone \<and>
      (getitem_str message ''type'' = Inl e \<or>
       (getitem_str message ''type'' = Inr (PStr ''TELEMETRY'') \<or>
        getitem_str message ''type'' = Inr (PStr ''PROPERTY'')) \<and>
       getitem_str message ''msg'' = Inl e))"
    using no_raise
    by (auto simp: client_send_with_timeout_def MSGTYPE_my_azure_def split: sum.splits)
  show ?thesis
    by (intro conjI) (fact a b c d)+
qed

theorem unknown_kind_returns_false_witness:
  "send_with_timeout env_failing (PList [PStr ''heartbeat'', PInt 1]) world0 = Ret False world0 \<and>
   client_send_with_timeout env_failing (PDict [(''type'', PStr ''telemetry'')]) world0
     = Ret False world0 \<and>
   send_with_timeout env_failing (PInt 5) world0 = Raise TypeError world0 \<and>
   send_with_timeout env_failing (PList [PStr ''telemetry'']) world0 = Raise IndexError world0 \<and>
   client_send_with_timeout env_failing (PDict [(''type'', PStr ''PROPERTY'')]) world0
     = Raise KeyError world0"
proof -
  have a: "send_with_timeout env_failing (PList [PStr ''heartbeat'', PInt 1]) world0
             = Ret False world0"
    using unknown_kind_returns_false
          [of "PList [PStr ''heartbeat'', PInt 1]" "PStr ''heartbeat''" env_failing world0]
    by simp
  have b: "client_send_with_timeout env_failing (PDict [(''type'', PStr ''telemetry'')]) world0
     = Ret False world0"
    using unknown_kind_returns_false
          [of "PDict [(''type'', PStr ''telemetry'')]" "PStr ''telemetry''" env_failing world0]
    by simp
  have c: "send_with_timeout env_failing (PInt 5) world0 = Raise TypeError world0"
    using unknown_kind_returns_false [of "PInt 5" _ env_failing world0 TypeError world0]
    by simp
  have d: "send_with_timeout env_failing (PList [PStr ''telemetry'']) world0
             = Raise IndexError world0"
    using unknown_kind_returns_false
            [of "PList [PStr ''telemetry'']" _ env_failing world0 IndexError world0]
    by simp
  have e: "client_send_with_timeout env_failing (PDict [(''type'', PStr ''PROPERTY'')]) world0
     = Raise KeyError world0"
    using unknown_kind_returns_false
            [of "PDict [(''type'', PStr ''PROPERTY'')]" _ env_failing world0 KeyError world0]
    by simp
  show ?thesis
    by (intro conjI) (fact a b c d e)+
qed

subsection \<open>The sender\<close>

lemma handed_over_append: "handed_over (h @ h') = handed_over h @ handed_over h'"
  by (induction h rule: handed_over.induct) simp_all

lemma produced_cases:
  "produced msg \<Longrightarrow> (\<exists>p. msg = telemetry_msg p) \<or> (\<exists>p. msg = property_msg p)"
  by (erule produced.elims) (auto simp: telemetry_msg_def property_msg_def)

lemma wait_for_network_up: "net_up E (trace w) \<Longrightarrow> wait_for_network E w = Some w"
  by (subst wait_for_network.simps) simp

lemma send_telemetry:
  "send_with_timeout E (telemetry_msg p) w = try_future E True (emit (SendMessage p) w)"
  by (simp add: send_with_timeout_def telemetry_msg_def MSGTYPE_def)

lemma send_property:
  "send_with_timeout E (property_msg p) w = try_future E True (emit (PatchTwin p) w)"
  by (simp add: send_with_timeout_def property_msg_def MSGTYPE_def)

lemma try_future_world: "\<exists>b. try_future E bound w = Ret b w"
  by (cases "future_result E bound w") (auto simp: try_future_def)

lemma connect_keeps_queue:
  "handshake_ok E (trace w @ [Connect]) \<or> connected w \<Longrightarrow>
   \<exists>w'. connect_to_iot_hub E w = Ret True w' \<and> send_queue w' = send_queue w \<and>
        handed_over (trace w') = handed_over (trace w)"
  by (auto simp: connect_to_iot_hub_def emit_def Let_def handed_over_append)

lemma connect_idempotent:
  "connected w \<Longrightarrow>
     connect_to_iot_hub E w = Ret True (w\<lparr>handlers_set := True\<rparr>) \<and>
     client_connect_to_iot_hub E w = Ret True (w\<lparr>handlers_set := True\<rparr>)"
  by (simp add: connect_to_iot_hub_def client_connect_to_iot_hub_def)

text \<open>
  One pass of the sender over a non-empty queue, with the network up and the
  handshake succeeding: the head leaves the queue and is handed to the client.
\<close>

lemma sender_pass_hands_over_head:
  assumes "\<forall>h. net_up E h" "\<forall>h. handshake_ok E h"
    and "send_queue w = msg # rest" "produced msg"
  shows "\<exists>w'. sender_iteration E w = Some (Ret () w') \<and> send_queue w' = rest \<and>
          handed_over (trace w') = handed_over (trace w) @ [msg]"
proof -
  let ?w0 = "w\<lparr>send_queue := rest\<rparr>"
  have wn: "wait_for_network E ?w0 = Some ?w0"
    using assms(1) by (simp add: wait_for_network_up)
  obtain w2 where c: "connect_to_iot_hub E ?w0 = Ret True w2" "send_queue w2 = rest"
      "handed_over (trace w2) = handed_over (trace w)"
    using connect_keeps_queue [of E ?w0] assms(2) by auto
  from assms(4) produced_cases
  consider p where "msg = telemetry_msg p" | p where "msg = property_msg p"
    by blast
  then show ?thesis
  proof cases
    case 1
    obtain b where
      "try_future E True (emit (SendMessage p) w2) = Ret b (emit (SendMessage p) w2)"
      using try_future_world by blast
    then show ?thesis
      using assms(3) wn c 1
      by (simp add: sender_iteration_def send_telemetry emit_def handed_over_append)
  next
    case 2
    obtain b where
      "try_future E True (emit (PatchTwin p) w2) = Ret b (emit (PatchTwin p) w2)"
      using try_future_world by blast
    then show ?thesis
      using assms(3) wn c 2
      by (simp add: sender_iteration_def send_property emit_def handed_over_append)
  qed
qed

text \<open>
  The invariant of every schedule: what has been handed to the client,
  followed by what still waits in the queue, is the sequence of messages in
  the order they were put.
\<close>

lemma run_schedule_order:
  assumes "\<forall>h. net_up E h" "\<forall>h. handshake_ok E h"
  shows "list_all produced (send_queue w) \<Longrightarrow> list_all produced (puts acts) \<Longrightarrow>
     \<exists>w'. run_schedule E acts w = Some (Ret () w') \<and>
       handed_over (trace w') @ send_queue w'
         = handed_over (trace w) @ send_queue w @ puts acts \<and>
       length (send_queue w') \<le> length (send_queue w) + length (puts acts)"
proof (induction acts arbitrary: w)
  case Nil
  then show ?case by simp
next
  case (Cons a acts)
  show ?case
  proof (cases a)
    case (Put m)
    with Cons.prems
    have "list_all produced (send_queue (put m w))" "list_all produced (puts acts)"
      by (simp_all add: put_def)
    from Cons.IH [OF this] show ?thesis
      using Put by (simp add: put_def)
  next
    case SenderPass
    show ?thesis
    proof (cases "send_queue w")
      case Nil
      have "sender_iteration E w = Some (Ret () w)"
        using Nil by (simp add: sender_iteration_def)
      moreover from Cons.prems SenderPass have "list_all produced (puts acts)" by simp
      ultimately show ?thesis
        using Cons.IH [OF Cons.prems(1)] SenderPass by simp
    next
      case (Cons msg rest)
      with Cons.prems have pm: "produced msg" and pr: "list_all produced rest"
        by simp_all
      obtain w1 where s: "sender_iteration E w = Some (Ret () w1)" "send_queue w1 = rest"
          "handed_over (trace w1) = handed_over (trace w) @ [msg]"
        using sender_pass_hands_over_head [OF assms Cons pm] by blast
      from Cons.prems SenderPass have "list_all produced (puts acts)" by simp
      with pr s(2) Cons.IH [of w1] obtain w' where
        "run_schedule E acts w1 = Some (Ret () w')"
        "handed_over (trace w') @ send_queue w'
           = handed_over (trace w1) @ send_queue w1 @ puts acts"
        "length (send_queue w') \<le> length (send_queue w1) + length (puts acts)"
        by auto
      then show ?thesis
        using SenderPass s Cons by simp
    qed
  qed
qed

lemma produced_handed_over: "list_all produced (handed_over h)"
  by (induction h rule: handed_over.induct)
     (simp_all add: telemetry_msg_def property_msg_def)

lemma run_schedule_append:
  "run_schedule E acts w = Some (Ret () w') \<Longrightarrow>
   run_schedule E (acts @ acts2) w = run_schedule E acts2 w'"
proof (induction acts arbitrary: w)
  case Nil
  then show ?case by simp
next
  case (Cons a acts)
  show ?case
  proof (cases a)
    case (Put m)
    with Cons show ?thesis by simp
  next
    case SenderPass
    with Cons.prems obtain w1 where "sender_iteration E w = Some (Ret () w1)"
      "run_schedule E acts w1 = Some (Ret () w')"
      by (auto split: option.splits outcome.splits)
    with Cons.IH [of w1] SenderPass show ?thesis by simp
  qed
qed

text \<open>Enough passes of the sender empty the queue.\<close>

lemma sender_drains:
  assumes "\<forall>h. net_up E h" "\<forall>h. handshake_ok E h"
  shows "list_all produced (send_queue w) \<Longrightarrow> length (send_queue w) \<le> n \<Longrightarrow>
     \<exists>w'. run_schedule E (replicate n SenderPass) w = Some (Ret () w') \<and>
       send_queue w' = [] \<and> handed_over (trace w') = handed_over (trace w) @ send_queue w"
proof (induction n arbitrary: w)
  case 0
  then show ?case by simp
next
  case (Suc n)
  show ?case
  proof (cases "send_queue w")
    case Nil
    then have "sender_iteration E w = Some (Ret () w)"
      by (simp add: sender_iteration_def)
    with Suc.IH [of w] Nil show ?thesis by simp
  next
    case (Cons msg rest)
    with Suc.prems have pm: "produced msg" and pr: "list_all produced rest"
      and len: "length rest \<le> n"
      by simp_all
    obtain w1 where s: "sender_iteration E w = Some (Ret () w1)" "send_queue w1 = rest"
        "handed_over (trace w1) = handed_over (trace w) @ [msg]"
      using sender_pass_hands_over_head [OF assms Cons pm] by blast
    with Suc.IH [of w1] pr len obtain w' where
      "run_schedule E (replicate n SenderPass) w1 = Some (Ret () w')"
      "send_queue w' = []" "handed_over (trace w') = handed_over (trace w1) @ send_queue w1"
      by auto
    with s Cons show ?thesis by simp
  qed
qed

lemma run_schedule_then_drain:
  assumes "\<forall>h. net_up E h" "\<forall>h. handshake_ok E h"
    and "list_all produced (send_queue w)" "list_all produced (puts acts)"
  shows "\<exists>w''. run_schedule E
            (acts @ replicate (length (send_queue w) + length (puts acts)) SenderPass) w
              = Some (Ret () w'') \<and>
          send_queue w'' = [] \<and>
          handed_over (trace w'') = handed_over (trace w) @ send_queue w @ puts acts"
proof -
  obtain w' where r: "run_schedule E acts w = Some (Ret () w')"
    and o: "handed_over (trace w') @ send_queue w'
              = handed_over (trace w) @ send_queue w @ puts acts"
    and l: "length (send_queue w') \<le> length (send_queue w) + length (puts acts)"
    using run_schedule_order [OF assms] by blast
  have "list_all produced (handed_over (trace w) @ send_queue w @ puts acts)"
    using assms(3,4) produced_handed_over by simp
  with o have "list_all produced (handed_over (trace w') @ send_queue w')" by simp
  then have p: "list_all produced (send_queue w')" by simp
  from sender_drains [OF assms(1,2) p l] obtain w'' where
    "run_schedule E (replicate (length (send_queue w) + length (puts acts)) SenderPass) w'
       = Some (Ret () w'')" "send_queue w'' = []"
    "handed_over (trace w'') = handed_over (trace w') @ send_queue w'"
    by blast
  with run_schedule_append [OF r] o show ?thesis by simp
qed

text \<open>
  C6. With the network up, the handshake succeeding and every delivery
  attempt succeeding, any schedule of producer puts and sender passes runs to
  its end, and the messages handed to the client followed by those still
  queued are the queued and put messages in their order of insertion.  The
  same holds for the messages of any one producer, picked out by \<open>P\<close>.
  Followed by as many sender passes as there were messages, the schedule ends
  with an empty queue and all of them handed over in that order.
\<close>

theorem sender_fifo:
  assumes "\<forall>h. net_up E h" and "\<forall>h. handshake_ok E h"
    and "\<forall>h. send_result E h = Delivered"
    and "list_all produced (send_queue w)" and "list_all produced (puts acts)"
  shows "(\<exists>w'. run_schedule E acts w = Some (Ret () w') \<and>
      handed_over (trace w') @ send_queue w'
        = handed_over (trace w) @ send_queue w @ puts acts \<and>
      filter P (handed_over (trace w')) @ filter P (send_queue w')
        = filter P (handed_over (trace w)) @ filter P (send_queue w) @ filter P (puts acts)) \<and>
    (\<exists>w''. run_schedule E
            (acts @ replicate (length (send_queue w) + length (puts acts)) SenderPass) w
              = Some (Ret () w'') \<and>
      send_queue w'' = [] \<and>
      handed_over (trace w'') = handed_over (trace w) @ send_queue w @ puts acts)"
proof -
  obtain w' where r: "run_schedule E acts w = Some (Ret () w')"
    and o: "handed_over (trace w') @ send_queue w'
              = handed_over (trace w) @ send_queue w @ puts acts"
    using run_schedule_order [OF assms(1,2,4,5)] by blast
  from o have "filter P (handed_over (trace w') @ send_queue w')
                 = filter P (handed_over (trace w) @ send_queue w @ puts acts)"
    by simp
  then have "filter P (handed_over (trace w')) @ filter P (send_queue w')
        = filter P (handed_over (trace w)) @ filter P (send_queue w) @ filter P (puts acts)"
    by simp
  with r o run_schedule_then_drain [OF assms(1,2,4,5)] show ?thesis by blast
qed

theorem sender_fifo_witness:
  "(\<forall>h. net_up env_ok h) \<and> (\<forall>h. handshake_ok env_ok h) \<and>
   (\<forall>h. send_result env_ok h = Delivered) \<and>
   list_all produced (send_queue world0) \<and> list_all produced (puts sample_schedule) \<and>
   (\<exists>w'. run_schedule env_ok sample_schedule world0 = Some (Ret () w') \<and>
      handed_over (trace w') @ send_queue w'
        = [telemetry_msg (PInt 1), property_msg (PInt 2), telemetry_msg (PInt 3)]) \<and>
   (\<exists>w''. run_schedule env_ok (sample_schedule @ [SenderPass, SenderPass, SenderPass]) world0
              = Some (Ret () w'') \<and>
      send_queue w'' = [] \<and>
      handed_over (trace w'')
        = [telemetry_msg (PInt 1), property_msg (PInt 2), telemetry_msg (PInt 3)])"
proof -
  have h1: "\<forall>h. net_up env_ok h" and h2: "\<forall>h. handshake_ok env_ok h"
    and h3: "\<forall>h. send_result env_ok h = Delivered"
    by (simp_all add: env_ok_def)
  have h4: "list_all produced (send_queue world0)"
    by (simp add: world0_def)
  have h5: "list_all produced (puts sample_schedule)"
    by (simp add: sample_schedule_def telemetry_msg_def property_msg_def MSGTYPE_def)
  have p: "puts sample_schedule
             = [telemetry_msg (PInt 1), property_msg (PInt 2), telemetry_msg (PInt 3)]"
    by (simp add: sample_schedule_def)
  have e: "handed_over (trace world0) = []" "send_queue world0 = []"
    by (simp_all add: world0_def)
  note t = sender_fifo [OF h1 h2 h3 h4 h5, of "\<lambda>m. True"]
  from t p e
  have a: "\<exists>w'. run_schedule env_ok sample_schedule world0 = Some (Ret () w') \<and>
      handed_over (trace w') @ send_queue w'
        = [telemetry_msg (PInt 1), property_msg (PInt 2), telemetry_msg (PInt 3)]"
    by simp
  from t p e
  have b: "\<exists>w''. run_schedule env_ok (sample_schedule @ [SenderPass, SenderPass, SenderPass]) world0
              = Some (Ret () w'') \<and>
      send_queue w'' = [] \<and>
      handed_over (trace w'')
        = [telemetry_msg (PInt 1), property_msg (PInt 2), telemetry_msg (PInt 3)]"
    by simp
  show ?thesis
    by (intro conjI) (fact h1 h2 h3 h4 h5 a b)+
qed

text \<open>
  C1 does not hold of the code.  With the client connected, the network up and
  the delivery timing out, \<^verbatim>\<open>send_with_timeout\<close> returns \<open>False\<close> and one pass
  of the sender leaves the queue empty: the message is neither delivered nor
  put back, and the sender does not sleep the retry interval.
\<close>

theorem failed_send_drops_message:
  "send_with_timeout env_failing (telemetry_msg (PObj 1)) (world0\<lparr>connected := True\<rparr>)
     = Ret False (world0\<lparr>connected := True, trace := [SendMessage (PObj 1)]\<rparr>) \<and>
   sender_iteration env_failing
       (world0\<lparr>send_queue := [telemetry_msg (PObj 1)], connected := True\<rparr>)
     = Some (Ret () (world0\<lparr>send_queue := [], connected := True, handlers_set := True,
                       trace := [SendMessage (PObj 1), Sleep SpinTick]\<rparr>))"
proof -
  have n: "wait_for_network env_failing (world0\<lparr>send_queue := [], connected := True\<rparr>)
             = Some (world0\<lparr>send_queue := [], connected := True\<rparr>)"
    by (rule wait_for_network_up) (simp add: env_failing_def)
  have t: "\<And>w. try_future env_failing True w = Ret False w"
    by (simp add: try_future_def future_result_def env_failing_def)
  show ?thesis
    using n t
    by (simp add: sender_iteration_def send_telemetry connect_to_iot_hub_def
        emit_def world0_def)
qed

text \<open>
  C2 does not hold of the code where the handshake fails.  With the client
  not connected and \<^verbatim>\<open>client.connect()\<close> raising, the method of \<^verbatim>\<open>my_azure.py\<close>
  sleeps and returns \<open>True\<close>, and the function of
  \<^verbatim>\<open>azure-iot-example_thread.py\<close> raises \<^verbatim>\<open>NameError\<close>; neither returns
  failure.
\<close>

theorem failed_handshake_not_reported:
  "client_connect_to_iot_hub env_failing world0
     = Ret True (world0\<lparr>handlers_set := True, trace := [Connect, Sleep ReconnectInterval]\<rparr>) \<and>
   connect_to_iot_hub env_failing world0 = Raise NameError (world0\<lparr>trace := [Connect]\<rparr>)"
  by (simp add: client_connect_to_iot_hub_def connect_to_iot_hub_def emit_def
      env_failing_def world0_def)

subsection \<open>The command dispatcher\<close>

lemma responses_append: "responses (h @ h') = responses h @ responses h'"
  by (induction h rule: responses.induct) simp_all

text \<open>
  What the routing of either script can do: answer without touching the
  history, start one thread and answer, or raise the \<^verbatim>\<open>AttributeError\<close> of
  a \<^verbatim>\<open>.get\<close> on a payload that is no dict, whatever the world.
\<close>

lemma route_command_cases:
  "(\<exists>sc. route_command r w = Ret sc w \<and> snd sc = 404) \<or>
   (\<exists>sc t. route_command r w = Ret sc (emit (StartThread t) w) \<and> snd sc = 200) \<or>
   (route_command r w = Raise AttributeError w \<and>
    (\<forall>w'. route_command r w' = Raise AttributeError w'))"
  by (cases "req_payload r")
     (auto simp: route_command_def restart_cmd_def split: sum.splits)

lemma route_command_simple_cases:
  "(\<exists>sc w1. route_command_simple r w = Ret sc w1 \<and> trace w1 = trace w \<and>
      snd sc \<in> {200, 404}) \<or>
   (\<exists>sc t. route_command_simple r w = Ret sc (emit (StartThread t) w) \<and>
      snd sc \<in> {200, 999} \<and> (snd sc = 999 \<longleftrightarrow> req_name r = ''Stop'')) \<or>
   (route_command_simple r w = Raise AttributeError w \<and>
    (\<forall>w'. route_command_simple r w' = Raise AttributeError w'))"
  by (cases "req_payload r")
     (auto simp: route_command_simple_def restart_cmd_simple_def set_slave_ip_cmd_def
        stop_cmd_def split: sum.splits)

lemma route_command_raises_everywhere:
  "route_command r w0 = Raise e w1 \<Longrightarrow> route_command r w = Raise AttributeError w"
  using route_command_cases [of r w0] by auto

lemma route_command_simple_raises_everywhere:
  "route_command_simple r w0 = Raise e w1 \<Longrightarrow> route_command_simple r w = Raise AttributeError w"
  using route_command_simple_cases [of r w0] by auto

lemma respond_Ret:
  "responses (trace (world_of (respond E r (Ret sc w1))))
     = responses (trace w1) @ [create_from_method_request r (snd sc) sc] \<and>
   ((\<forall>h. response_ok E h) \<longrightarrow>
      respond E r (Ret sc w1) = Ret () (world_of (respond E r (Ret sc w1))))"
  by (simp add: respond_def send_method_response_def emit_def Let_def responses_append)

lemma respond_Raise:
  "responses (trace (world_of (respond E r (Raise e w1))))
     = responses (trace w1) @ [create_from_method_request r 500 (''error'', 500)] \<and>
   ((\<forall>h. response_ok E h) \<longrightarrow>
      respond E r (Raise e w1) = Ret () (world_of (respond E r (Raise e w1))))"
  by (simp add: respond_def send_method_response_def emit_def Let_def responses_append)

lemma command_iteration_step:
  "\<exists>resp. responses (trace (world_of (command_iteration E r w))) = responses (trace w) @ [resp] \<and>
      resp_request_id resp = req_id r \<and> resp_status resp \<in> {200, 404, 500} \<and>
      ((\<exists>e w0 w1. route_command r w0 = Raise e w1) \<longrightarrow> resp_status resp = 500) \<and>
      ((\<forall>h. response_ok E h) \<longrightarrow>
         command_iteration E r w = Ret () (world_of (command_iteration E r w)))"
proof -
  consider sc where "route_command r w = Ret sc w" "snd sc = 404"
    | sc t where "route_command r w = Ret sc (emit (StartThread t) w)" "snd sc = 200"
    | "route_command r w = Raise AttributeError w"
    using route_command_cases [of r w] by blast
  then show ?thesis
  proof cases
    case 1
    then have "\<nexists>e w0 w1. route_command r w0 = Raise e w1"
      using route_command_raises_everywhere [of r _ _ _ w] by auto
    with 1 respond_Ret [of E r sc w] show ?thesis
      by (simp add: command_iteration_def create_from_method_request_def)
  next
    case 2
    then have "\<nexists>e w0 w1. route_command r w0 = Raise e w1"
      using route_command_raises_everywhere [of r _ _ _ w] by auto
    with 2 respond_Ret [of E r sc "emit (StartThread t) w"] show ?thesis
      by (simp add: command_iteration_def create_from_method_request_def emit_def
          responses_append)
  next
    case 3
    with respond_Raise [of E r AttributeError w] show ?thesis
      by (simp add: command_iteration_def create_from_method_request_def)
  qed
qed

lemma command_iteration_simple_step:
  "\<exists>resp. responses (trace (world_of (command_iteration_simple E r w)))
        = responses (trace w) @ [resp] \<and>
      resp_request_id resp = req_id r \<and> resp_status resp \<in> {200, 404, 500, 999} \<and>
      (resp_status resp = 999 \<longleftrightarrow> req_name r = ''Stop'') \<and>
      ((\<exists>e w0 w1. route_command_simple r w0 = Raise e w1) \<longrightarrow> resp_status resp = 500) \<and>
      ((\<forall>h. response_ok E h) \<longrightarrow>
         command_iteration_simple E r w = Ret () (world_of (command_iteration_simple E r w)))"
proof -
  consider sc w1 where "route_command_simple r w = Ret sc w1" "trace w1 = trace w"
        "snd sc \<in> {200, 404}"
    | sc t where "route_command_simple r w = Ret sc (emit (StartThread t) w)"
        "snd sc \<in> {200, 999}" "snd sc = 999 \<longleftrightarrow> req_name r = ''Stop''"
    | "route_command_simple r w = Raise AttributeError w"
    using route_command_simple_cases [of r w] by blast
  then show ?thesis
  proof cases
    case 1
    then have "\<nexists>e w0 w1. route_command_simple r w0 = Raise e w1"
      using route_command_simple_raises_everywhere [of r _ _ _ w] by auto
    moreover have "req_name r \<noteq> ''Stop''"
      using 1 by (auto simp: route_command_simple_def stop_cmd_def emit_def split: if_splits)
    ultimately show ?thesis
      using 1 respond_Ret [of E r sc w1]
      by (auto simp: command_iteration_simple_def create_from_method_request_def)
  next
    case 2
    then have "\<nexists>e w0 w1. route_command_simple r w0 = Raise e w1"
      using route_command_simple_raises_everywhere [of r _ _ _ w] by auto
    with 2 respond_Ret [of E r sc "emit (StartThread t) w"] show ?thesis
      by (auto simp: command_iteration_simple_def create_from_method_request_def emit_def
          responses_append)
  next
    case 3
    then have "req_name r \<noteq> ''Stop''"
      by (auto simp: route_command_simple_def stop_cmd_def split: if_splits)
    with 3 respond_Raise [of E r AttributeError w] show ?thesis
      by (simp add: command_iteration_simple_def create_from_method_request_def)
  qed
qed


text \<open>
  A pass ends normally unless the send of its response raised, and then with
  the exception of the send.
\<close>

lemma respond_outcome:
  "respond E r routed =
     (if response_ok E (trace (world_of (respond E r routed)))
      then Ret () (world_of (respond E r routed))
      else Raise SdkError (world_of (respond E r routed)))"
  by (cases routed) (simp_all add: respond_def send_method_response_def Let_def)

lemma command_iteration_outcome:
  "command_iteration E r w =
     (if response_ok E (trace (world_of (command_iteration E r w)))
      then Ret () (world_of (command_iteration E r w))
      else Raise SdkError (world_of (command_iteration E r w)))"
  unfolding command_iteration_def by (rule respond_outcome)

lemma command_iteration_simple_outcome:
  "command_iteration_simple E r w =
     (if response_ok E (trace (world_of (command_iteration_simple E r w)))
      then Ret () (world_of (command_iteration_simple E r w))
      else Raise SdkError (world_of (command_iteration_simple E r w)))"
  unfolding command_iteration_simple_def by (rule respond_outcome)

lemma command_processor_task_answers:
  "\<exists>n new. n \<le> length rs \<and>
     responses (trace (world_of (command_processor_task E rs w))) = responses (trace w) @ new \<and>
     list_all2 (\<lambda>r resp. resp_request_id resp = req_id r \<and>
         ((\<exists>e w0 w1. route_command r w0 = Raise e w1) \<longrightarrow> resp_status resp = 500))
       (take n rs) new \<and>
     (command_processor_task E rs w = Ret () (world_of (command_processor_task E rs w)) \<and>
        n = length rs \<or>
      command_processor_task E rs w = Raise SdkError (world_of (command_processor_task E rs w)) \<and>
        0 < n \<and> \<not> response_ok E (trace (world_of (command_processor_task E rs w))))"
  (is "\<exists>n new. ?Q rs w n new")
proof (induction rs arbitrary: w)
  case Nil
  have "?Q [] w 0 []" by simp
  then show ?case by (intro exI)
next
  case (Cons r rs)
  define v where "v = world_of (command_iteration E r w)"
  have "\<exists>resp. responses (trace v) = responses (trace w) @ [resp] \<and>
      resp_request_id resp = req_id r \<and>
      ((\<exists>e w0 w1. route_command r w0 = Raise e w1) \<longrightarrow> resp_status resp = 500)"
    unfolding v_def using command_iteration_step [of E r w]
    by (elim exE conjE) (intro exI conjI; assumption)
  then obtain resp where s: "responses (trace v) = responses (trace w) @ [resp]"
      "resp_request_id resp = req_id r"
      "(\<exists>e w0 w1. route_command r w0 = Raise e w1) \<longrightarrow> resp_status resp = 500"
    by (elim exE conjE) (rule that)
  have o: "command_iteration E r w
             = (if response_ok E (trace v) then Ret () v else Raise SdkError v)"
    using command_iteration_outcome [of E r w] unfolding v_def .
  show ?case
  proof (cases "response_ok E (trace v)")
    case True
    with o have e: "command_processor_task E (r # rs) w = command_processor_task E rs v"
      by simp
    from Cons.IH [of v] obtain n new where t: "?Q rs v n new"
      by (elim exE)
    have "?Q (r # rs) w (Suc n) (resp # new)"
      unfolding e using t s by (elim conjE disjE) simp_all
    then show ?thesis by (intro exI)
  next
    case False
    with o have p: "command_processor_task E (r # rs) w = Raise SdkError v" by simp
    have "?Q (r # rs) w 1 [resp]"
      unfolding p using s False by simp
    then show ?thesis by (intro exI)
  qed
qed

lemma command_processor_task_simple_answers:
  "\<exists>n new. n \<le> length rs \<and>
     responses (trace (world_of (command_processor_task_simple E rs w))) = responses (trace w) @ new \<and>
     list_all2 (\<lambda>r resp. resp_request_id resp = req_id r \<and>
         ((\<exists>e w0 w1. route_command_simple r w0 = Raise e w1) \<longrightarrow> resp_status resp = 500))
       (take n rs) new \<and>
     (command_processor_task_simple E rs w = Ret () (world_of (command_processor_task_simple E rs w)) \<and>
        n = length rs \<or>
      command_processor_task_simple E rs w = Raise SdkError (world_of (command_processor_task_simple E rs w)) \<and>
        0 < n \<and> \<not> response_ok E (trace (world_of (command_processor_task_simple E rs w))))"
  (is "\<exists>n new. ?Q rs w n new")
proof (induction rs arbitrary: w)
  case Nil
  have "?Q [] w 0 []" by simp
  then show ?case by (intro exI)
next
  case (Cons r rs)
  define v where "v = world_of (command_iteration_simple E r w)"
  have "\<exists>resp. responses (trace v) = responses (trace w) @ [resp] \<and>
      resp_request_id resp = req_id r \<and>
      ((\<exists>e w0 w1. route_command_simple r w0 = Raise e w1) \<longrightarrow> resp_status resp = 500)"
    unfolding v_def using command_iteration_simple_step [of E r w]
    by (elim exE conjE) (intro exI conjI; assumption)
  then obtain resp where s: "responses (trace v) = responses (trace w) @ [resp]"
      "resp_request_id resp = req_id r"
      "(\<exists>e w0 w1. route_command_simple r w0 = Raise e w1) \<longrightarrow> resp_status resp = 500"
    by (elim exE conjE) (rule that)
  have o: "command_iteration_simple E r w
             = (if response_ok E (trace v) then Ret () v else Raise SdkError v)"
    using command_iteration_simple_outcome [of E r w] unfolding v_def .
  show ?case
  proof (cases "response_ok E (trace v)")
    case True
    with o have e: "command_processor_task_simple E (r # rs) w = command_processor_task_simple E rs v"
      by simp
    from Cons.IH [of v] obtain n new where t: "?Q rs v n new"
      by (elim exE)
    have "?Q (r # rs) w (Suc n) (resp # new)"
      unfolding e using t s by (elim conjE disjE) simp_all
    then show ?thesis by (intro exI)
  next
    case False
    with o have p: "command_processor_task_simple E (r # rs) w = Raise SdkError v" by simp
    have "?Q (r # rs) w 1 [resp]"
      unfolding p using s False by simp
    then show ?thesis by (intro exI)
  qed
qed


text \<open>
  C3. In either script the dispatcher, working through the requests \<open>rs\<close>,
  takes some number \<open>n\<close> of them and calls \<^verbatim>\<open>send_method_response\<close> exactly
  once for each request taken, in order and with the id of that request; the
  response to a request whose handler raises has the status 500.  The loop
  either runs through all requests, or ends with the exception of the last
  send it made: no handler failure ends it.
\<close>

theorem one_response_per_request:
  "(\<exists>n new. n \<le> length rs \<and>
     responses (trace (world_of (command_processor_task E rs w))) = responses (trace w) @ new \<and>
     list_all2 (\<lambda>r resp. resp_request_id resp = req_id r \<and>
         ((\<exists>e w0 w1. route_command r w0 = Raise e w1) \<longrightarrow> resp_status resp = 500))
       (take n rs) new \<and>
     (command_processor_task E rs w = Ret () (world_of (command_processor_task E rs w)) \<and>
        n = length rs \<or>
      command_processor_task E rs w = Raise SdkError (world_of (command_processor_task E rs w)) \<and>
        0 < n \<and> \<not> response_ok E (trace (world_of (command_processor_task E rs w))))) \<and>
   (\<exists>n new. n \<le> length rs \<and>
     responses (trace (world_of (command_processor_task_simple E rs w)))
       = responses (trace w) @ new \<and>
     list_all2 (\<lambda>r resp. resp_request_id resp = req_id r \<and>
         ((\<exists>e w0 w1. route_command_simple r w0 = Raise e w1) \<longrightarrow> resp_status resp = 500))
       (take n rs) new \<and>
     (command_processor_task_simple E rs w
        = Ret () (world_of (command_processor_task_simple E rs w)) \<and>
        n = length rs \<or>
      command_processor_task_simple E rs w
        = Raise SdkError (world_of (command_processor_task_simple E rs w)) \<and>
        0 < n \<and> \<not> response_ok E (trace (world_of (command_processor_task_simple E rs w)))))"
  by (intro conjI) (rule command_processor_task_answers, rule command_processor_task_simple_answers)

text \<open>The sample runs, evaluated.\<close>

lemma sample_run:
  "command_processor_task env_ok sample_requests world0
     = Ret () (world0\<lparr>trace :=
         [SendMethodResponse \<lparr>resp_request_id = ''a'', resp_status = 500,
                               resp_payload = (''error'', 500)\<rparr>,
          StartThread (RestartSlaveTask (PInt 2)),
          SendMethodResponse \<lparr>resp_request_id = ''b'', resp_status = 200,
                               resp_payload = (''restarted'', 200)\<rparr>,
          SendMethodResponse \<lparr>resp_request_id = ''c'', resp_status = 404,
                               resp_payload = (''Unknown command'', 404)\<rparr>]\<rparr>)"
  by (simp add: sample_requests_def command_iteration_def respond_def route_command_def
      restart_cmd_def send_method_response_def create_from_method_request_def emit_def
      env_ok_def world0_def)

lemma sample_run_simple:
  "command_processor_task_simple env_ok sample_requests_simple world0
     = Ret () (world0\<lparr>slave_ip_address := PStr ''10.0.0.7'', trace :=
         [SendMethodResponse \<lparr>resp_request_id = ''a'', resp_status = 500,
                               resp_payload = (''error'', 500)\<rparr>,
          SendMethodResponse \<lparr>resp_request_id = ''b'', resp_status = 200,
                               resp_payload = (''updated'', 200)\<rparr>,
          SendMethodResponse \<lparr>resp_request_id = ''c'', resp_status = 404,
                               resp_payload = (''Unknown command'', 404)\<rparr>]\<rparr>)"
  by (simp add: sample_requests_simple_def command_iteration_simple_def respond_def
      route_command_simple_def set_slave_ip_cmd_def send_method_response_def
      create_from_method_request_def emit_def env_ok_def world0_def)

lemma sample_run_response_fails:
  "command_processor_task env_second_response_fails sample_requests world0
     = Raise SdkError (world0\<lparr>trace :=
         [SendMethodResponse \<lparr>resp_request_id = ''a'', resp_status = 500,
                               resp_payload = (''error'', 500)\<rparr>,
          StartThread (RestartSlaveTask (PInt 2)),
          SendMethodResponse \<lparr>resp_request_id = ''b'', resp_status = 200,
                               resp_payload = (''restarted'', 200)\<rparr>]\<rparr>)"
  by (simp add: sample_requests_def command_iteration_def respond_def route_command_def
      restart_cmd_def send_method_response_def create_from_method_request_def emit_def
      env_second_response_fails_def world0_def)

theorem one_response_per_request_witness:
  "(\<exists>e w1. route_command (hd sample_requests) world0 = Raise e w1) \<and>
   (\<exists>e w1. route_command_simple (hd sample_requests_simple) world0 = Raise e w1) \<and>
   resp_status (hd (responses (trace (world_of
       (command_processor_task env_ok sample_requests world0))))) = 500 \<and>
   resp_status (hd (responses (trace (world_of
       (command_processor_task_simple env_ok sample_requests_simple world0))))) = 500 \<and>
   (\<exists>w'. command_processor_task env_ok sample_requests world0 = Ret () w' \<and>
      map resp_status (responses (trace w')) = [500, 200, 404] \<and>
      map resp_request_id (responses (trace w')) = map req_id sample_requests) \<and>
   (\<exists>w'. command_processor_task_simple env_ok sample_requests_simple world0 = Ret () w' \<and>
      map resp_status (responses (trace w')) = [500, 200, 404] \<and>
      map resp_request_id (responses (trace w')) = map req_id sample_requests_simple) \<and>
   (\<exists>w'. command_processor_task env_second_response_fails sample_requests world0
             = Raise SdkError w' \<and>
      map resp_status (responses (trace w')) = [500, 200] \<and>
      map resp_request_id (responses (trace w')) = map req_id (take 2 sample_requests))"
proof -
  have r1: "\<exists>e w1. route_command (hd sample_requests) world0 = Raise e w1"
    by (simp add: sample_requests_def route_command_def restart_cmd_def)
  have r2: "\<exists>e w1. route_command_simple (hd sample_requests_simple) world0 = Raise e w1"
    by (simp add: sample_requests_simple_def route_command_simple_def set_slave_ip_cmd_def)
  have s1: "resp_status (hd (responses (trace (world_of
       (command_processor_task env_ok sample_requests world0))))) = 500"
  proof -
    from one_response_per_request [THEN conjunct1, of sample_requests env_ok world0]
    obtain n new where q: "responses (trace (world_of
          (command_processor_task env_ok sample_requests world0))) = responses (trace world0) @ new"
      "list_all2 (\<lambda>r resp. resp_request_id resp = req_id r \<and>
         ((\<exists>e w0 w1. route_command r w0 = Raise e w1) \<longrightarrow> resp_status resp = 500))
       (take n sample_requests) new"
      "command_processor_task env_ok sample_requests world0
         = Ret () (world_of (command_processor_task env_ok sample_requests world0)) \<and>
        n = length sample_requests \<or>
       command_processor_task env_ok sample_requests world0
         = Raise SdkError (world_of (command_processor_task env_ok sample_requests world0)) \<and>
        0 < n \<and> \<not> response_ok env_ok (trace (world_of
           (command_processor_task env_ok sample_requests world0)))"
      by (elim exE conjE) (rule that)
    from q(3) have "0 < n"
      by (auto simp: sample_requests_def)
    with q(2) obtain resp rest where n: "new = resp # rest"
      "(\<exists>e w0 w1. route_command (hd sample_requests) w0 = Raise e w1) \<longrightarrow> resp_status resp = 500"
      by (cases n) (auto simp: sample_requests_def list_all2_Cons1)
    from n(2) r1 have "resp_status resp = 500" by blast
    with q(1) n(1) show ?thesis
      by (simp add: world0_def)
  qed
  have s2: "resp_status (hd (responses (trace (world_of
       (command_processor_task_simple env_ok sample_requests_simple world0))))) = 500"
  proof -
    from one_response_per_request [THEN conjunct2, of sample_requests_simple env_ok world0]
    obtain n new where q: "responses (trace (world_of
          (command_processor_task_simple env_ok sample_requests_simple world0)))
            = responses (trace world0) @ new"
      "list_all2 (\<lambda>r resp. resp_request_id resp = req_id r \<and>
         ((\<exists>e w0 w1. route_command_simple r w0 = Raise e w1) \<longrightarrow> resp_status resp = 500))
       (take n sample_requests_simple) new"
      "command_processor_task_simple env_ok sample_requests_simple world0
         = Ret () (world_of (command_processor_task_simple env_ok sample_requests_simple world0)) \<and>
        n = length sample_requests_simple \<or>
       command_processor_task_simple env_ok sample_requests_simple world0
         = Raise SdkError
             (world_of (command_processor_task_simple env_ok sample_requests_simple world0)) \<and>
        0 < n \<and> \<not> response_ok env_ok (trace (world_of
           (command_processor_task_simple env_ok sample_requests_simple world0)))"
      by (elim exE conjE) (rule that)
    from q(3) have "0 < n"
      by (auto simp: sample_requests_simple_def)
    with q(2) obtain resp rest where n: "new = resp # rest"
      "(\<exists>e w0 w1. route_command_simple (hd sample_requests_simple) w0 = Raise e w1)
         \<longrightarrow> resp_status resp = 500"
      by (cases n) (auto simp: sample_requests_simple_def list_all2_Cons1)
    from n(2) r2 have "resp_status resp = 500" by blast
    with q(1) n(1) show ?thesis
      by (simp add: world0_def)
  qed
  have A: "\<exists>w'. command_processor_task env_ok sample_requests world0 = Ret () w' \<and>
      map resp_status (responses (trace w')) = [500, 200, 404] \<and>
      map resp_request_id (responses (trace w')) = map req_id sample_requests"
    unfolding sample_run by (simp add: sample_requests_def)
  have B: "\<exists>w'. command_processor_task_simple env_ok sample_requests_simple world0 = Ret () w' \<and>
      map resp_status (responses (trace w')) = [500, 200, 404] \<and>
      map resp_request_id (responses (trace w')) = map req_id sample_requests_simple"
    unfolding sample_run_simple by (simp add: sample_requests_simple_def)
  have C: "\<exists>w'. command_processor_task env_second_response_fails sample_requests world0
             = Raise SdkError w' \<and>
      map resp_status (responses (trace w')) = [500, 200] \<and>
      map resp_request_id (responses (trace w')) = map req_id (take 2 sample_requests)"
    unfolding sample_run_response_fails by (simp add: sample_requests_def)
  show ?thesis
    by (intro conjI) (fact r1 r2 s1 s2 A B C)+
qed

text \<open>
  C4 as stated fails in \<^verbatim>\<open>azure-iot-thread-simple.py\<close>: the response to the
  command \<^verbatim>\<open>Stop\<close> carries the code 999, which is neither 200, 404 or 500
  nor a 2xx code.
\<close>

theorem stop_code_counterexample:
  "command_iteration_simple env_ok \<lparr>req_name = ''Stop'', req_payload = PNone, req_id = ''7''\<rparr> world0
     = Ret () (world0\<lparr>trace :=
         [StartThread StopTask,
          SendMethodResponse \<lparr>resp_request_id = ''7'', resp_status = 999,
                               resp_payload = (''Recived'', 999)\<rparr>]\<rparr>) \<and>
   (999::int) \<notin> {200, 404, 500} \<and> \<not> (200 \<le> (999::int) \<and> (999::int) < 300)"
  by (simp add: command_iteration_simple_def respond_def route_command_simple_def stop_cmd_def
      send_method_response_def create_from_method_request_def emit_def env_ok_def world0_def)

text \<open>
  C4, amended.  One pass of the dispatcher sends exactly one response, with
  the id of the request.  In \<^verbatim>\<open>azure-iot-thread-simple.py\<close> its status is
  200, 404, 500 or 999, and 999 exactly for the command \<^verbatim>\<open>Stop\<close>; in
  \<^verbatim>\<open>azure-iot-example_thread.py\<close> it is 200, 404 or 500.
\<close>

theorem response_code_and_token:
  "(\<exists>resp. responses (trace (world_of (command_iteration_simple E r w)))
        = responses (trace w) @ [resp] \<and>
      resp_request_id resp = req_id r \<and> resp_status resp \<in> {200, 404, 500, 999} \<and>
      (resp_status resp = 999) = (req_name r = ''Stop'')) \<and>
   (\<exists>resp. responses (trace (world_of (command_iteration E r w))) = responses (trace w) @ [resp] \<and>
      resp_request_id resp = req_id r \<and> resp_status resp \<in> {200, 404, 500})"
  using command_iteration_simple_step [of E r w] command_iteration_step [of E r w]
  by blast

text \<open>
  C7. For a command name that no branch of the routing matches, a pass of
  the dispatcher is the sending of the response
  \<^verbatim>\<open>{"status": "Unknown command", "code": 404}\<close> from the world as it was: no
  handler has run, no thread was started, no global has changed.
\<close>

theorem unknown_command_404:
  "(req_name r \<noteq> ''restart'' \<longrightarrow>
      command_iteration E r w
        = send_method_response E \<lparr>resp_request_id = req_id r, resp_status = 404,
                                   resp_payload = (''Unknown command'', 404)\<rparr> w) \<and>
   (req_name r \<noteq> ''RestartSlave'' \<and> req_name r \<noteq> ''SetSlaveIP'' \<and> req_name r \<noteq> ''Stop'' \<longrightarrow>
      command_iteration_simple E r w
        = send_method_response E \<lparr>resp_request_id = req_id r, resp_status = 404,
                                   resp_payload = (''Unknown command'', 404)\<rparr> w)"
  by (simp add: command_iteration_def command_iteration_simple_def respond_def
      route_command_def route_command_simple_def create_from_method_request_def)

theorem unknown_command_404_witness:
  "command_iteration env_ok \<lparr>req_name = ''doesNotExist'', req_payload = PInt 5, req_id = ''9''\<rparr> world0
     = Ret () (world0\<lparr>trace := [SendMethodResponse \<lparr>resp_request_id = ''9'', resp_status = 404,
                                   resp_payload = (''Unknown command'', 404)\<rparr>]\<rparr>) \<and>
   command_iteration_simple env_ok
       \<lparr>req_name = ''doesNotExist'', req_payload = PInt 5, req_id = ''9''\<rparr> world0
     = Ret () (world0\<lparr>trace := [SendMethodResponse \<lparr>resp_request_id = ''9'', resp_status = 404,
                                   resp_payload = (''Unknown command'', 404)\<rparr>]\<rparr>)"
  using unknown_command_404
          [of "\<lparr>req_name = ''doesNotExist'', req_payload = PInt 5, req_id = ''9''\<rparr>" env_ok world0]
  by (simp add: send_method_response_def emit_def env_ok_def world0_def)

subsection \<open>Restarting the slave\<close>










text \<open>
  Delays for which the task does not run to its end.  Text ends it at the
  comparison, before any write of the flag.  A delay beyond the range of
  \<^verbatim>\<open>time.sleep\<close>, \<^verbatim>\<open>nan\<close> or an infinity ends it at the sleep, after the
  flag was cleared, and the flag stays cleared.
\<close>

lemma restart_task_rejects_text_delay:
  "restart_slave_task E (PStr s) w = Raise TypeError w"
  by (simp add: restart_slave_task_def guard_delay_def)

lemma restart_task_sleep_fails:
  "restart_slave_task E (PInt 10000000000) w
     = Raise OverflowError (emit (SetSlaveReady False) (w\<lparr>SLAVE_READY_STATE := False\<rparr>)) \<and>
   restart_slave_task E (PFloat FNaN) w
     = Raise ValueError (emit (SetSlaveReady False) (w\<lparr>SLAVE_READY_STATE := False\<rparr>)) \<and>
   restart_slave_task E (PFloat FPosInf) w
     = Raise OverflowError (emit (SetSlaveReady False) (w\<lparr>SLAVE_READY_STATE := False\<rparr>))"
  by (simp add: restart_slave_task_def guard_delay_def time_sleep_def Let_def)

text \<open>A float and a bool are delays like an integer.\<close>

lemma restart_task_float_and_bool_delay:
  "restart_slave_task env_ok (PFloat (FFinite (3 / 2))) world0
     = Ret () (world0\<lparr>SLAVE_READY_STATE := True,
         trace := [SetSlaveReady False, Sleep (Seconds (3 / 2)), RelayRequest, RelayOn,
                   Sleep PowerOffDelay, RelayOff, SetSlaveReady True]\<rparr>) \<and>
   restart_slave_task env_ok (PBool True) world0
     = Ret () (world0\<lparr>SLAVE_READY_STATE := True,
         trace := [SetSlaveReady False, Sleep (Seconds 1), RelayRequest, RelayOn,
                   Sleep PowerOffDelay, RelayOff, SetSlaveReady True]\<rparr>)"
  by (simp add: restart_slave_task_def guard_delay_def time_sleep_def Slave_init_def
      power_cycle_def emit_def Let_def env_ok_def world0_def)

end
